theory Spec2Isabelle
  imports Main "HOL-Library.Sublist"
begin

section \<open>Python values used by the WhatsApp fact-checking relay\<close>

text \<open>
  The relay is the module \<^verbatim>\<open>whatsapp_webhook.py\<close>. A Python \<^verbatim>\<open>str\<close> is a sequence of
  Unicode code points, and the program trims, searches and parses such strings, so a string
  is modelled as the list of its code points. \<open>str\<close> turns an ASCII literal into that form.
\<close>

type_synonym pystr = "nat list"

definition str :: "string \<Rightarrow> pystr" where
  "str s = map of_char s"

text \<open>
  Truth value of an optional string, as Python's \<^verbatim>\<open>if x\<close>, \<^verbatim>\<open>not x\<close> and \<^verbatim>\<open>x or y\<close> take it:
  \<^verbatim>\<open>None\<close> and the empty string are false, every other string is true.
\<close>

fun truthy :: "pystr option \<Rightarrow> bool" where
  "truthy None = False"
| "truthy (Some s) = (s \<noteq> [])"

definition py_or :: "pystr option \<Rightarrow> pystr option \<Rightarrow> pystr option" where
  "py_or a b = (if truthy a then a else b)"

subsection \<open>\<^verbatim>\<open>str.strip()\<close>\<close>

text \<open>
  The code points for which \<^verbatim>\<open>str.isspace()\<close> holds; \<^verbatim>\<open>strip()\<close> without an argument
  removes exactly these from both ends.
\<close>

definition py_isspace :: "nat \<Rightarrow> bool" where
  "py_isspace c \<longleftrightarrow>
     (9 \<le> c \<and> c \<le> 13) \<or> (28 \<le> c \<and> c \<le> 32) \<or> c = 133 \<or> c = 160 \<or> c = 5760 \<or>
     (8192 \<le> c \<and> c \<le> 8202) \<or> c = 8232 \<or> c = 8233 \<or> c = 8239 \<or> c = 8287 \<or> c = 12288"

definition strip :: "pystr \<Rightarrow> pystr" where
  "strip s = rev (dropWhile py_isspace (rev (dropWhile py_isspace s)))"

subsection \<open>The substring test \<^verbatim>\<open>sub in s\<close>\<close>

fun py_in :: "pystr \<Rightarrow> pystr \<Rightarrow> bool" where
  "py_in sub [] = (sub = [])"
| "py_in sub (c # cs) = (prefix sub (c # cs) \<or> py_in sub cs)"

subsection \<open>\<^verbatim>\<open>int(s)\<close> on a string\<close>

text \<open>
  \<^verbatim>\<open>int\<close> accepts optional surrounding whitespace, an optional sign, and decimal digits
  with single underscores between them; anything else raises \<^verbatim>\<open>ValueError\<close> (here \<open>None\<close>).
  Every Unicode decimal digit counts as a digit: \<open>decimal_zeros\<close> lists the code point of
  the digit zero of each script (Unicode 14, each followed by its digits one to nine).
  The whitespace \<^verbatim>\<open>int\<close> skips is that of \<^verbatim>\<open>isspace\<close> except the four ASCII separators
  28 to 31. An interpreter with a digit limit (\<^verbatim>\<open>sys.set_int_max_str_digits\<close>, 4300 by
  default since Python 3.11, 0 for none) also raises \<^verbatim>\<open>ValueError\<close> on a longer digit string.
\<close>

definition decimal_zeros :: "nat list" where
  "decimal_zeros =
    [0x30, 0x660, 0x6F0, 0x7C0, 0x966, 0x9E6, 0xA66, 0xAE6, 0xB66, 0xBE6, 0xC66, 0xCE6,
     0xD66, 0xDE6, 0xE50, 0xED0, 0xF20, 0x1040, 0x1090, 0x17E0, 0x1810, 0x1946, 0x19D0,
     0x1A80, 0x1A90, 0x1B50, 0x1BB0, 0x1C40, 0x1C50, 0xA620, 0xA8D0, 0xA900, 0xA9D0,
     0xA9F0, 0xAA50, 0xABF0, 0xFF10, 0x104A0, 0x10D30, 0x11066, 0x110F0, 0x11136,
     0x111D0, 0x112F0, 0x11450, 0x114D0, 0x11650, 0x116C0, 0x11730, 0x118E0, 0x11950,
     0x11C50, 0x11D50, 0x11DA0, 0x16A60, 0x16AC0, 0x16B50, 0x1D7CE, 0x1D7D8, 0x1D7E2,
     0x1D7EC, 0x1D7F6, 0x1E140, 0x1E2F0, 0x1E950, 0x1FBF0]"

definition decimal :: "nat \<Rightarrow> nat option" where
  "decimal c = (case find (\<lambda>z. z \<le> c \<and> c < z + 10) decimal_zeros of
                  None \<Rightarrow> None
                | Some z \<Rightarrow> Some (c - z))"

definition int_space :: "nat \<Rightarrow> bool" where
  "int_space c \<longleftrightarrow> py_isspace c \<and> \<not> (28 \<le> c \<and> c \<le> 31)"

fun int_digits :: "pystr \<Rightarrow> nat list option" where
  "int_digits [] = None"
| "int_digits [c] = (case decimal c of None \<Rightarrow> None | Some d \<Rightarrow> Some [d])"
| "int_digits (c # c' # cs) =
     (case decimal c of
        None \<Rightarrow> None
      | Some d \<Rightarrow>
          (case (if c' = 95 then int_digits cs else int_digits (c' # cs)) of
             None \<Rightarrow> None
           | Some ds \<Rightarrow> Some (d # ds)))"

text \<open>
  \<open>int_literal\<close> reads the sign and the digits of a well-formed literal; \<open>py_int\<close> is
  \<^verbatim>\<open>int(s)\<close> under the interpreter's digit limit.
\<close>

definition int_literal :: "pystr \<Rightarrow> (bool \<times> nat list) option" where
  "int_literal s =
     (let t = rev (dropWhile int_space (rev (dropWhile int_space s)));
          neg = (t \<noteq> [] \<and> hd t = 45);
          u = (if t \<noteq> [] \<and> (hd t = 45 \<or> hd t = 43) then tl t else t)
      in case int_digits u of
           None \<Rightarrow> None
         | Some ds \<Rightarrow> Some (neg, ds))"

definition py_int :: "nat \<Rightarrow> pystr \<Rightarrow> int option" where
  "py_int max_digits s =
     (case int_literal s of
        None \<Rightarrow> None
      | Some (neg, ds) \<Rightarrow>
          if 0 < max_digits \<and> max_digits < length ds then None
          else let n = int (foldl (\<lambda>a d. 10 * a + d) 0 ds)
               in Some (if neg then - n else n))"

section \<open>The outside world\<close>

text \<open>
  Every step of the pipeline calls a hosted service or the file system, and each such call
  either returns or raises. The exceptions are values; all of them are instances of
  Python's \<^verbatim>\<open>Exception\<close>, which is what the handler of \<open>process_incoming\<close> catches.
\<close>

datatype exn =
    ValueError
  | HTTPError nat
  | OtherError string

type_synonym 'a result = "exn + 'a"

text \<open>The response of \<^verbatim>\<open>requests.get\<close>: status, the Content-Type header if any, the body.\<close>

record http_response =
  status_code :: nat
  content_type :: "pystr option"
  content :: "nat list"

text \<open>
  The loosely typed answer of the speech-to-text service: its attributes, and the dictionary
  \<^verbatim>\<open>model_dump()\<close> gives when the object has that method. A field holds a string or
  \<^verbatim>\<open>None\<close>; a missing field and a field that is \<^verbatim>\<open>None\<close> read the same through
  \<^verbatim>\<open>getattr(resp, name, None)\<close> and \<^verbatim>\<open>d.get(name)\<close>.
\<close>

record asr_response =
  attrs :: "string \<Rightarrow> pystr option"
  model_dump :: "(string \<Rightarrow> pystr option) option"

text \<open>
  The answer of the generative model: reading its \<^verbatim>\<open>text\<close> attribute finds no such
  attribute, or yields the text, or raises; \<open>str_of\<close> is \<^verbatim>\<open>str(resp)\<close>.
\<close>

datatype text_attr = NoAttr | Text pystr | TextRaises exn

record gen_response =
  text_of :: text_attr
  str_of :: pystr

text \<open>Writing the downloaded bytes: \<^verbatim>\<open>open\<close> may fail, or the write after it.\<close>

datatype write_outcome = Written | OpenFails exn | WriteFails exn

text \<open>
  The environment fixes what each outside call does in one run. \<open>messages_create\<close> is the
  messaging provider's send (\<open>None\<close>: accepted); it is a function of the destination and
  the body, which is general enough for one run since no run sends the same body twice.
\<close>

record env =
  int_max_str_digits :: nat
  requests_get :: "pystr \<Rightarrow> http_response result"
  gettempdir :: pystr
  uuid4_hex :: pystr
  write_file :: "pystr \<Rightarrow> write_outcome"
  transcribe :: "pystr \<Rightarrow> asr_response result"
  generate_content :: "pystr \<Rightarrow> gen_response result"
  messages_create :: "pystr option \<Rightarrow> pystr \<Rightarrow> exn option"
  os_remove :: "pystr \<Rightarrow> exn option"

text \<open>
  What a run leaves behind: the files on disk, the messages the provider accepted (a send
  that raises delivers nothing), and the trace of the calls made, in order.
\<close>

datatype event =
    Download pystr
  | Transcribe pystr
  | FactCheck pystr
  | Generate pystr
  | Send "pystr option" pystr
  | Logged exn
  | Remove pystr

record world =
  files :: "pystr set"
  delivered :: "(pystr option \<times> pystr) list"
  trace :: "event list"

definition emit :: "event \<Rightarrow> world \<Rightarrow> world" where
  "emit ev w = w\<lparr>trace := trace w @ [ev]\<rparr>"

fun is_Download :: "event \<Rightarrow> bool" where
  "is_Download (Download _) = True"
| "is_Download _ = False"

fun is_FactCheck :: "event \<Rightarrow> bool" where
  "is_FactCheck (FactCheck _) = True"
| "is_FactCheck (Generate _) = True"
| "is_FactCheck _ = False"

fun is_Send :: "event \<Rightarrow> bool" where
  "is_Send (Send _ _) = True"
| "is_Send _ = False"

section \<open>The fixed texts\<close>

text \<open>
  The two fixed replies and the two halves of the prompt template, code point by code point
  as the source file spells them.
\<close>

definition insufficient_reply :: pystr where
  "insufficient_reply =
     [224, 174, 164, 224, 174, 8226, 224, 174, 181, 224, 174, 178, 224, 175, 32, 224,
       174, 8226, 224, 174, 191, 224, 174, 376, 224, 175, 710, 224, 174, 8226, 224, 175,
       224, 174, 8226, 224, 174, 181, 224, 174, 191, 224, 174, 178, 224, 175, 224, 174,
       178, 224, 175, 710, 32, 226, 8364, 8221, 32, 224, 174, 164, 224, 174, 175, 224,
       174, 181, 224, 175, 224, 174, 353, 224, 175, 8224, 224, 174, 175, 224, 175, 224,
       174, 164, 224, 175, 32, 224, 174, 164, 224, 175, 8224, 224, 174, 179, 224, 174,
       191, 224, 174, 181, 224, 174, 190, 224, 174, 8226, 32, 224, 174, 8217, 224, 174,
       176, 224, 175] @
     str '' voice note '' @
     [224, 174, 8230, 224, 174, 169, 224, 175, 224, 174, 170, 224, 175, 224, 174, 170,
       224, 174, 181, 224, 175, 224, 174, 174, 224, 175, 46]"

definition apology_reply :: pystr where
  "apology_reply =
     [224, 174, 353, 224, 174, 174, 224, 175, 710, 224, 174, 175, 224, 174, 178, 224,
       174, 191, 224, 174, 178, 224, 175, 32, 224, 174, 170, 224, 174, 191, 224, 174,
       180, 224, 175, 710, 58, 32, 224, 174, 170, 224, 174, 191, 224, 174, 177, 224,
       174, 8226, 224, 175, 32, 224, 174, 174, 224, 175, 224, 174, 175, 224, 174, 177,
       224, 175, 224, 174, 353, 224, 174, 191, 224, 174, 8226, 224, 175, 224, 174, 8226,
       224, 174, 181, 224, 175, 224, 174, 174, 224, 175, 46]"

definition prompt_head :: pystr where
  "prompt_head =
     [10] @
     str ''You are an expert fact-checker for Indian and Tamil Nadu news.'' @
     [10] @
     str ''You have access to the latest news up to this moment.'' @
     [10, 10] @
     str ''Fact to verify:'' @
     [10, 34]"

definition prompt_tail :: pystr where
  "prompt_tail =
     [34, 10, 10] @
     str ''Tasks:'' @
     [10] @
     str ''1. Search for the latest and most credible news sources related to this fact.'' @
     [10] @
     str ''2. Determine if the statement is TRUE, FALSE, or PARTIALLY TRUE.'' @
     [10] @
     str ''3. Provide a short, clear explanation in Tamil, citing the sources or reasoning.'' @
     [10] @
     str ''4. If unsure, say '' @
     [34, 224, 174, 164, 224, 174, 8226, 224, 174, 181, 224, 174, 178, 224, 175, 32,
       224, 174, 170, 224, 175, 8249, 224, 174, 164, 224, 175, 224, 174, 174, 224, 174,
       190, 224, 174, 169, 224, 174, 164, 224, 174, 190, 224, 174, 8226, 32, 224, 174,
       8225, 224, 174, 178, 224, 175, 224, 174, 178, 224, 175, 710, 34] @
     str '' (Insufficient information).'' @
     [10, 10] @
     str ''Format:'' @
     [10] @
     str ''Verdict: [TRUE'' @
     [226, 339, 8230] @
     str '' / FALSE'' @
     [226, 338] @
     str '' / PARTIALLY TRUE '' @
     [240, 376, 8224, 8212] @
     str ''/ UNCERTAIN'' @
     [240, 376, 376, 93, 10] @
     str ''Explanation: [2-3 lines in Tamil]'' @
     [10]"

section \<open>Media Fetcher\<close>

text \<open>\<^verbatim>\<open>Response.raise_for_status()\<close> raises for the client and server error statuses.\<close>

definition raise_for_status :: "http_response \<Rightarrow> exn option" where
  "raise_for_status resp =
     (if 400 \<le> status_code resp \<and> status_code resp < 600
      then Some (HTTPError (status_code resp)) else None)"

text \<open>The extension chain of \<open>download_media\<close>, on the Content-Type value.\<close>

definition media_ext :: "pystr \<Rightarrow> pystr" where
  "media_ext ct =
     (if py_in (str ''opus'') ct \<or> py_in (str ''ogg'') ct then str ''.opus''
      else if py_in (str ''wav'') ct then str ''.wav''
      else if py_in (str ''mpeg'') ct \<or> py_in (str ''mp3'') ct then str ''.mp3''
      else str ''.bin'')"

text \<open>\<^verbatim>\<open>os.path.join\<close> of a directory and a file name (POSIX).\<close>

definition path_join :: "pystr \<Rightarrow> pystr \<Rightarrow> pystr" where
  "path_join a b =
     (if b \<noteq> [] \<and> hd b = 47 then b
      else if a = [] \<or> last a = 47 then a @ b
      else a @ [47] @ b)"

definition download_media :: "env \<Rightarrow> pystr \<Rightarrow> world \<Rightarrow> pystr result \<times> world" where
  "download_media e url w =
     (let w1 = emit (Download url) w in
      case requests_get e url of
        Inl x \<Rightarrow> (Inl x, w1)
      | Inr resp \<Rightarrow>
          (case raise_for_status resp of
             Some x \<Rightarrow> (Inl x, w1)
           | None \<Rightarrow>
               (let ct = (case content_type resp of None \<Rightarrow> [] | Some c \<Rightarrow> c);
                    ext = media_ext ct;
                    path = path_join (gettempdir e) (uuid4_hex e @ ext)
                in case write_file e path of
                     OpenFails x \<Rightarrow> (Inl x, w1)
                   | WriteFails x \<Rightarrow> (Inl x, w1\<lparr>files := insert path (files w1)\<rparr>)
                   | Written \<Rightarrow> (Inr path, w1\<lparr>files := insert path (files w1)\<rparr>))))"

section \<open>Transcription Client\<close>

text \<open>Lines 60 to 64 of the source: the transcript taken out of the response.\<close>

definition dump_of :: "asr_response \<Rightarrow> string \<Rightarrow> pystr option" where
  "dump_of resp = (case model_dump resp of None \<Rightarrow> (\<lambda>_. None) | Some d \<Rightarrow> d)"

definition extract_transcript :: "asr_response \<Rightarrow> pystr" where
  "extract_transcript resp =
     (let transcript = py_or (attrs resp ''transcript'') (attrs resp ''text'') in
      if \<not> truthy transcript then
        (let d = dump_of resp in
         case py_or (py_or (d ''transcript'') (d ''text'')) (Some []) of
           None \<Rightarrow> []
         | Some t \<Rightarrow> strip t)
      else (case transcript of None \<Rightarrow> [] | Some t \<Rightarrow> strip t))"

definition sarvam_transcribe :: "env \<Rightarrow> pystr \<Rightarrow> world \<Rightarrow> pystr result \<times> world" where
  "sarvam_transcribe e file_path w =
     (let w1 = emit (Transcribe file_path) w in
      case transcribe e file_path of
        Inl x \<Rightarrow> (Inl x, w1)
      | Inr resp \<Rightarrow> (Inr (extract_transcript resp), w1))"

section \<open>Fact-Check Client\<close>

definition prompt :: "pystr \<Rightarrow> pystr" where
  "prompt transcript = prompt_head @ transcript @ prompt_tail"

definition gemini_fact_check :: "env \<Rightarrow> pystr \<Rightarrow> world \<Rightarrow> pystr result \<times> world" where
  "gemini_fact_check e transcript w =
     (let w1 = emit (Generate (prompt transcript)) (emit (FactCheck transcript) w) in
      case generate_content e (prompt transcript) of
        Inl x \<Rightarrow> (Inl x, w1)
      | Inr resp \<Rightarrow>
          (case text_of resp of
             NoAttr \<Rightarrow> (Inr (str_of resp), w1)
           | Text t \<Rightarrow> (Inr t, w1)
           | TextRaises x \<Rightarrow> (Inl x, w1)))"

section \<open>Reply Sender\<close>

definition send_whatsapp_reply ::
  "env \<Rightarrow> pystr option \<Rightarrow> pystr \<Rightarrow> world \<Rightarrow> unit result \<times> world" where
  "send_whatsapp_reply e to text w =
     (let w1 = emit (Send to text) w in
      case messages_create e to text of
        Some x \<Rightarrow> (Inl x, w1)
      | None \<Rightarrow> (Inr (), w1\<lparr>delivered := delivered w1 @ [(to, text)]\<rparr>))"

section \<open>Orchestrator\<close>

text \<open>
  The arguments are optional strings: the webhook passes \<^verbatim>\<open>None\<close> for a form field that
  is missing. \<open>resolve_input\<close> is lines 106 to 110: it yields the transcript, or the
  exception raised on the way, together with the value of \<^verbatim>\<open>local_path\<close> at that point.
\<close>

definition resolve_input ::
  "env \<Rightarrow> pystr option \<Rightarrow> pystr option \<Rightarrow> pystr option \<Rightarrow> world
     \<Rightarrow> pystr result \<times> pystr option \<times> world" where
  "resolve_input e body num_media media_url w =
     (let text_branch = (Inr (strip (case body of None \<Rightarrow> [] | Some b \<Rightarrow> b)), None, w);
          media_branch = (\<lambda>url.
            case download_media e url w of
              (Inl x, w1) \<Rightarrow> (Inl x, None, w1)
            | (Inr local_path, w1) \<Rightarrow>
                (case sarvam_transcribe e local_path w1 of
                   (r, w2) \<Rightarrow> (r, Some local_path, w2)))
      in case num_media of
           None \<Rightarrow> text_branch
         | Some nm \<Rightarrow>
             if nm = [] then text_branch
             else (case py_int (int_max_str_digits e) nm of
                     None \<Rightarrow> (Inl ValueError, None, w)
                   | Some n \<Rightarrow>
                       if \<not> 0 < n then text_branch
                       else (case media_url of
                               None \<Rightarrow> text_branch
                             | Some url \<Rightarrow> if url = [] then text_branch else media_branch url)))"

text \<open>The reply of line 118, built from the transcript and the fact-check result.\<close>

definition reply_text :: "pystr \<Rightarrow> pystr \<Rightarrow> pystr" where
  "reply_text transcript fact_result =
     str ''Transcript:'' @ [10] @ transcript @ [10, 10] @ str ''Fact-check:'' @ [10] @ fact_result"

text \<open>
  The body of the \<^verbatim>\<open>try\<close> block, lines 106 to 118. Beside its outcome it gives the value
  \<^verbatim>\<open>local_path\<close> has when the block is left, which the \<^verbatim>\<open>finally\<close> clause reads.
\<close>

definition try_body ::
  "env \<Rightarrow> pystr option \<Rightarrow> pystr option \<Rightarrow> pystr option \<Rightarrow> pystr option \<Rightarrow> world
     \<Rightarrow> unit result \<times> pystr option \<times> world" where
  "try_body e from_number body num_media media_url w =
     (case resolve_input e body num_media media_url w of
        (Inl x, local_path, w1) \<Rightarrow> (Inl x, local_path, w1)
      | (Inr transcript, local_path, w1) \<Rightarrow>
          if transcript = [] then
            (case send_whatsapp_reply e from_number insufficient_reply w1 of
               (r, w2) \<Rightarrow> (r, local_path, w2))
          else
            (case gemini_fact_check e transcript w1 of
               (Inl x, w2) \<Rightarrow> (Inl x, local_path, w2)
             | (Inr fact_result, w2) \<Rightarrow>
                 (case send_whatsapp_reply e from_number (reply_text transcript fact_result) w2 of
                    (r, w3) \<Rightarrow> (r, local_path, w3))))"

text \<open>
  The \<^verbatim>\<open>finally\<close> clause, lines 125 to 130: an exception of \<^verbatim>\<open>os.remove\<close> is swallowed,
  and the file then stays.
\<close>

definition cleanup :: "env \<Rightarrow> pystr option \<Rightarrow> world \<Rightarrow> world" where
  "cleanup e local_path w =
     (case local_path of
        None \<Rightarrow> w
      | Some p \<Rightarrow>
          if p \<noteq> [] \<and> p \<in> files w then
            (let w1 = emit (Remove p) w in
             case os_remove e p of
               None \<Rightarrow> w1\<lparr>files := files w1 - {p}\<rparr>
             | Some x \<Rightarrow> w1)
          else w)"

text \<open>
  The whole of \<open>process_incoming\<close>: \<open>Inr ()\<close> when it returns, \<open>Inl x\<close> when the exception
  \<open>x\<close> leaves it. The handler logs the exception and sends the apology; an exception of
  that send is not caught, and leaves the function after the \<^verbatim>\<open>finally\<close> clause has run.
\<close>

definition process_incoming ::
  "env \<Rightarrow> pystr option \<Rightarrow> pystr option \<Rightarrow> pystr option \<Rightarrow> pystr option \<Rightarrow> world
     \<Rightarrow> unit result \<times> world" where
  "process_incoming e from_number body num_media media_url w =
     (case try_body e from_number body num_media media_url w of
        (r, local_path, w1) \<Rightarrow>
          (case (case r of
                   Inr u \<Rightarrow> (Inr (), w1)
                 | Inl x \<Rightarrow> send_whatsapp_reply e from_number apology_reply (emit (Logged x) w1)) of
             (out, w2) \<Rightarrow> (out, cleanup e local_path w2)))"

section \<open>The specification's words\<close>

text \<open>
  The definitions of this section follow the wording of the specification, not the code;
  the theorems compare them with the functions above. A content type mentions a name when
  the name occurs in it.
\<close>

definition mentions :: "pystr \<Rightarrow> string \<Rightarrow> bool" where
  "mentions ct name \<longleftrightarrow> (\<exists>before after. ct = before @ str name @ after)"

definition spec_ext :: "pystr \<Rightarrow> pystr" where
  "spec_ext ct =
     (if mentions ct ''opus'' \<or> mentions ct ''ogg'' then str ''.opus''
      else if mentions ct ''wav'' then str ''.wav''
      else if mentions ct ''mpeg'' \<or> mentions ct ''mp3'' then str ''.mp3''
      else str ''.bin'')"

definition declared_type :: "http_response \<Rightarrow> pystr" where
  "declared_type resp = (case content_type resp of None \<Rightarrow> [] | Some c \<Rightarrow> c)"

fun first_nonempty :: "pystr option list \<Rightarrow> pystr" where
  "first_nonempty [] = []"
| "first_nonempty (None # rest) = first_nonempty rest"
| "first_nonempty (Some s # rest) = (if s = [] then first_nonempty rest else s)"

definition dump_field :: "asr_response \<Rightarrow> string \<Rightarrow> pystr option" where
  "dump_field resp name = (case model_dump resp of None \<Rightarrow> None | Some d \<Rightarrow> d name)"

definition spec_transcript :: "asr_response \<Rightarrow> pystr" where
  "spec_transcript resp =
     strip (first_nonempty [attrs resp ''transcript'', attrs resp ''text'',
                            dump_field resp ''transcript'', dump_field resp ''text''])"

definition only_text_field :: "asr_response \<Rightarrow> pystr \<Rightarrow> bool" where
  "only_text_field resp s \<longleftrightarrow>
     attrs resp ''transcript'' = None \<and> attrs resp ''text'' = Some s \<and>
     dump_field resp ''transcript'' = None \<and>
     (dump_field resp ''text'' = None \<or> dump_field resp ''text'' = Some s)"

text \<open>A string is a valid integer literal when \<^verbatim>\<open>int\<close> can read a sign and digits from it.\<close>

definition valid_int_literal :: "pystr \<Rightarrow> bool" where
  "valid_int_literal s \<longleftrightarrow> int_literal s \<noteq> None"

section \<open>Concrete runs\<close>

text \<open>
  A fresh world, a sender, and an environment in which every outside call succeeds: the
  download answers with an Ogg/Opus body, the transcription carries only a \<^verbatim>\<open>text\<close>
  field, and the model answers with a verdict. The runs of the theorems below vary it.
\<close>

definition world0 :: world where
  "world0 = \<lparr>files = {}, delivered = [], trace = []\<rparr>"

definition sender :: pystr where
  "sender = str ''whatsapp:+911234567890''"

definition media_link :: pystr where
  "media_link = str ''https://api.twilio.com/Media/ME01''"

definition ogg_response :: http_response where
  "ogg_response = \<lparr>status_code = 200, content_type = Some (str ''audio/ogg; codecs=opus''),
                    content = [79, 103, 103, 83]\<rparr>"

definition text_only_response :: asr_response where
  "text_only_response =
     \<lparr>attrs = (\<lambda>name. if name = ''text'' then Some (str '' vanakkam '') else None),
      model_dump = None\<rparr>"

definition verdict_response :: gen_response where
  "verdict_response = \<lparr>text_of = Text (str ''Verdict: TRUE''), str_of = str ''response''\<rparr>"

definition env_ok :: env where
  "env_ok = \<lparr>int_max_str_digits = 4300,
             requests_get = (\<lambda>url. Inr ogg_response),
             gettempdir = str ''/tmp'',
             uuid4_hex = str ''0f3a'',
             write_file = (\<lambda>path. Written),
             transcribe = (\<lambda>path. Inr text_only_response),
             generate_content = (\<lambda>p. Inr verdict_response),
             messages_create = (\<lambda>to body. None),
             os_remove = (\<lambda>path. None)\<rparr>"

text \<open>
  Variations of that environment: the messaging provider refuses every send, or every send
  but the apology; the generative model is unavailable; the file cannot be deleted; the
  disk is full, so that the write after a successful \<^verbatim>\<open>open\<close> fails.
\<close>

definition twilio_error :: exn where
  "twilio_error = OtherError ''TwilioRestException''"

definition env_send_fails :: env where
  "env_send_fails = env_ok\<lparr>messages_create := (\<lambda>to body. Some twilio_error)\<rparr>"

definition env_only_apology_sent :: env where
  "env_only_apology_sent =
     env_ok\<lparr>messages_create := (\<lambda>to body. if body = apology_reply then None else Some twilio_error)\<rparr>"

definition env_model_fails :: env where
  "env_model_fails =
     env_ok\<lparr>generate_content := (\<lambda>p. Inl (OtherError ''ServiceUnavailable''))\<rparr>"

definition env_remove_fails :: env where
  "env_remove_fails = env_ok\<lparr>os_remove := (\<lambda>path. Some (OtherError ''PermissionError''))\<rparr>"

definition env_disk_full :: env where
  "env_disk_full = env_ok\<lparr>write_file := (\<lambda>path. WriteFails (OtherError ''OSError''))\<rparr>"

section \<open>Facts about the Python values and the concrete runs\<close>

lemma py_in_iff_sublist: "py_in sub s \<longleftrightarrow> sublist sub s"
  by (induction s) (auto simp: sublist_Cons_right)

lemma py_in_mentions: "py_in (str name) ct \<longleftrightarrow> mentions ct name"
  by (simp add: py_in_iff_sublist sublist_def mentions_def)

lemma media_ext_spec: "media_ext ct = spec_ext ct"
  by (simp add: media_ext_def spec_ext_def py_in_mentions)

lemma media_ext_nonempty: "media_ext ct \<noteq> []"
  by (simp add: media_ext_def str_def)

lemma path_join_nonempty: "b \<noteq> [] \<Longrightarrow> path_join a b \<noteq> []"
  by (simp add: path_join_def)

lemma extract_transcript_spec: "extract_transcript resp = spec_transcript resp"
  by (cases "attrs resp ''transcript''"; cases "attrs resp ''text''";
      cases "model_dump resp")
     (auto simp: extract_transcript_def spec_transcript_def py_or_def dump_of_def
                 dump_field_def Let_def strip_def
           split: option.splits)

lemma int_literal_zero: "int_literal (str ''0'') = Some (False, [0])"
  by (simp add: int_literal_def str_def int_space_def py_isspace_def decimal_def decimal_zeros_def)

lemma py_int_zero: "py_int lim (str ''0'') = Some 0"
  by (auto simp: py_int_def int_literal_zero)

lemma py_int_invalid: "\<not> valid_int_literal s \<Longrightarrow> py_int lim s = None"
  by (cases "int_literal s") (auto simp: valid_int_literal_def py_int_def)

lemma int_literal_one: "int_literal (str ''1'') = Some (False, [1])"
  by (simp add: int_literal_def str_def int_space_def py_isspace_def decimal_def decimal_zeros_def)

lemma py_int_one: "py_int 4300 (str ''1'') = Some 1"
  by (simp add: py_int_def int_literal_one)

lemma abc_invalid: "\<not> valid_int_literal (str ''abc'')"
  by (simp add: valid_int_literal_def int_literal_def str_def int_space_def py_isspace_def
        decimal_def decimal_zeros_def)

lemma strip_hi: "strip (str ''hi'') = str ''hi''"
  by (simp add: strip_def str_def py_isspace_def)

lemma strip_padded_hi: "strip (str '' hi '') = str ''hi''"
  by (simp add: strip_def str_def py_isspace_def)

lemma str_nonempty: "str ''hi'' \<noteq> []" "str ''1'' \<noteq> []" "str ''abc'' \<noteq> []"
  by (simp_all add: str_def)

lemma media_link_nonempty: "media_link \<noteq> []"
  by (simp add: media_link_def str_def)

lemma insufficient_not_apology: "insufficient_reply \<noteq> apology_reply"
  by (simp add: insufficient_reply_def apology_reply_def)

lemma reply_text_not_apology: "reply_text t r \<noteq> apology_reply"
  by (simp add: reply_text_def apology_reply_def str_def)

lemma world0_simps: "files world0 = {}" "delivered world0 = []" "trace world0 = []"
  by (simp_all add: world0_def)

lemma env_ok_simps:
  "int_max_str_digits env_ok = 4300"
  "requests_get env_ok = (\<lambda>url. Inr ogg_response)"
  "gettempdir env_ok = str ''/tmp''"
  "uuid4_hex env_ok = str ''0f3a''"
  "write_file env_ok = (\<lambda>path. Written)"
  "transcribe env_ok = (\<lambda>path. Inr text_only_response)"
  "generate_content env_ok = (\<lambda>p. Inr verdict_response)"
  "messages_create env_ok = (\<lambda>to body. None)"
  "os_remove env_ok = (\<lambda>path. None)"
  by (simp_all add: env_ok_def)

lemma vanakkam: "extract_transcript text_only_response = str ''vanakkam''"
  by (simp add: extract_transcript_def text_only_response_def py_or_def strip_def str_def
        py_isspace_def)

lemma ogg_path: "fst (download_media env_ok media_link world0) = Inr (str ''/tmp/0f3a.opus'')"
  by (simp add: download_media_def env_ok_def ogg_response_def raise_for_status_def
        media_ext_def path_join_def str_def Let_def)

section \<open>Effects of the steps\<close>

lemma emit_simps:
  "trace (emit ev w) = trace w @ [ev]"
  "delivered (emit ev w) = delivered w"
  "files (emit ev w) = files w"
  by (simp_all add: emit_def)

lemma download_media_effect:
  "download_media e url w = (r, w1) \<Longrightarrow>
     trace w1 = trace w @ [Download url] \<and> delivered w1 = delivered w
     \<and> (\<forall>p. r = Inr p \<longrightarrow> p \<noteq> [] \<and> p \<in> files w1)"
  by (auto simp: download_media_def Let_def emit_simps media_ext_nonempty path_join_nonempty
           split: sum.splits option.splits write_outcome.splits)

lemma sarvam_transcribe_effect:
  "sarvam_transcribe e p w = (r, w1) \<Longrightarrow>
     trace w1 = trace w @ [Transcribe p] \<and> delivered w1 = delivered w \<and> files w1 = files w"
  by (auto simp: sarvam_transcribe_def Let_def emit_simps split: sum.splits)

lemma gemini_fact_check_effect:
  "gemini_fact_check e t w = (r, w1) \<Longrightarrow>
     trace w1 = trace w @ [FactCheck t, Generate (prompt t)] \<and> delivered w1 = delivered w
     \<and> files w1 = files w"
  by (auto simp: gemini_fact_check_def Let_def emit_simps split: sum.splits text_attr.splits)

lemma send_whatsapp_reply_effect:
  "send_whatsapp_reply e to text w = (r, w1) \<Longrightarrow>
     trace w1 = trace w @ [Send to text] \<and> files w1 = files w
     \<and> (r = Inr () \<longleftrightarrow> messages_create e to text = None)
     \<and> delivered w1 = (if messages_create e to text = None then delivered w @ [(to, text)]
                        else delivered w)"
  by (auto simp: send_whatsapp_reply_def Let_def emit_simps split: option.splits)

lemma cleanup_effect:
  "delivered (cleanup e lp w) = delivered w"
  "filter is_Download (trace (cleanup e lp w)) = filter is_Download (trace w)"
  "filter is_FactCheck (trace (cleanup e lp w)) = filter is_FactCheck (trace w)"
  "filter is_Send (trace (cleanup e lp w)) = filter is_Send (trace w)"
  by (auto simp: cleanup_def Let_def emit_simps split: option.splits)

lemma cleanup_removes:
  "p \<noteq> [] \<Longrightarrow> os_remove e p = None \<Longrightarrow> p \<notin> files (cleanup e (Some p) w)"
  by (simp add: cleanup_def emit_simps Let_def)

lemma resolve_input_effect:
  assumes "resolve_input e body nm url w = (r, lp, w1)"
  shows "delivered w1 = delivered w"
    and "filter is_FactCheck (trace w1) = filter is_FactCheck (trace w)"
    and "filter is_Send (trace w1) = filter is_Send (trace w)"
  using assms
  by (auto simp: resolve_input_def Let_def
           split: option.splits if_splits prod.splits sum.splits
           dest!: download_media_effect sarvam_transcribe_effect)

lemma resolve_input_text_message:
  "resolve_input e (Some body) (Some (str ''0'')) url w = (Inr (strip body), None, w)"
  by (simp add: resolve_input_def py_int_zero Let_def)

lemma resolve_input_media:
  assumes "nm \<noteq> []" and "py_int (int_max_str_digits e) nm = Some n" and "0 < n"
      and "url \<noteq> []"
      and "resolve_input e body (Some nm) (Some url) w = (r0, lp0, w1)"
  shows "filter is_Download (trace w1) = filter is_Download (trace w) @ [Download url]"
    and "fst (download_media e url w) = Inr p \<Longrightarrow> lp0 = Some p \<and> p \<noteq> [] \<and> p \<in> files w1"
  using assms
  by (auto simp: resolve_input_def Let_def split: prod.splits sum.splits
           dest!: download_media_effect sarvam_transcribe_effect)

lemma try_body_raises_delivered:
  assumes "try_body e from_number body nm url w = (Inl x, lp, w1)"
  shows "delivered w1 = delivered w"
  using assms
  by (auto simp: try_body_def
           split: prod.splits sum.splits if_splits
           dest!: resolve_input_effect(1) gemini_fact_check_effect send_whatsapp_reply_effect)

lemma try_body_after_resolve:
  assumes "resolve_input e body nm url w = (r0, lp0, w1)"
      and "try_body e from_number body nm url w = (r, lp, w2)"
  shows "lp = lp0" and "files w2 = files w1"
    and "filter is_Download (trace w2) = filter is_Download (trace w1)"
  using assms
  by (auto simp: try_body_def split: sum.splits if_splits prod.splits
           dest!: gemini_fact_check_effect send_whatsapp_reply_effect)

lemma handler_effect:
  assumes "(case r of Inr u \<Rightarrow> (Inr (), w1)
            | Inl x \<Rightarrow> send_whatsapp_reply e from_number apology_reply (emit (Logged x) w1))
           = (out, w2)"
  shows "files w2 = files w1"
    and "filter is_Download (trace w2) = filter is_Download (trace w1)"
    and "filter is_FactCheck (trace w2) = filter is_FactCheck (trace w1)"
proof -
  have "files w2 = files w1
      \<and> filter is_Download (trace w2) = filter is_Download (trace w1)
      \<and> filter is_FactCheck (trace w2) = filter is_FactCheck (trace w1)"
  proof (cases r)
    case (Inl x)
    with assms have "send_whatsapp_reply e from_number apology_reply (emit (Logged x) w1)
                     = (out, w2)"
      by simp
    from send_whatsapp_reply_effect [OF this] show ?thesis
      by (simp add: emit_simps)
  next
    case (Inr u)
    with assms show ?thesis by simp
  qed
  then show "files w2 = files w1"
    and "filter is_Download (trace w2) = filter is_Download (trace w1)"
    and "filter is_FactCheck (trace w2) = filter is_FactCheck (trace w1)"
    by simp_all
qed

lemma process_incoming_empty_transcript:
  assumes "resolve_input e body nm url w = (Inr [], lp, w1)"
  shows "process_incoming e from_number body nm url w =
           (case send_whatsapp_reply e from_number insufficient_reply w1 of
              (Inr u, w2) \<Rightarrow> (Inr (), cleanup e lp w2)
            | (Inl x, w2) \<Rightarrow>
                (case send_whatsapp_reply e from_number apology_reply (emit (Logged x) w2) of
                   (out, w3) \<Rightarrow> (out, cleanup e lp w3)))"
  using assms
  by (simp add: process_incoming_def try_body_def split: prod.splits sum.splits)

lemma process_incoming_transcript:
  assumes "resolve_input e body nm url w = (Inr t, lp, w1)" and "t \<noteq> []"
  shows "process_incoming e from_number body nm url w =
           (case gemini_fact_check e t w1 of
              (Inl x, w2) \<Rightarrow>
                (case send_whatsapp_reply e from_number apology_reply (emit (Logged x) w2) of
                   (out, w3) \<Rightarrow> (out, cleanup e lp w3))
            | (Inr r, w2) \<Rightarrow>
                (case send_whatsapp_reply e from_number (reply_text t r) w2 of
                   (Inr u, w3) \<Rightarrow> (Inr (), cleanup e lp w3)
                 | (Inl x, w3) \<Rightarrow>
                     (case send_whatsapp_reply e from_number apology_reply (emit (Logged x) w3) of
                        (out, w4) \<Rightarrow> (out, cleanup e lp w4))))"
  using assms
  by (simp add: process_incoming_def try_body_def split: prod.splits sum.splits)

lemma os_remove_irrelevant:
  "download_media (e\<lparr>os_remove := rm\<rparr>) = download_media e"
  "sarvam_transcribe (e\<lparr>os_remove := rm\<rparr>) = sarvam_transcribe e"
  "gemini_fact_check (e\<lparr>os_remove := rm\<rparr>) = gemini_fact_check e"
  "send_whatsapp_reply (e\<lparr>os_remove := rm\<rparr>) = send_whatsapp_reply e"
  by (simp_all add: fun_eq_iff download_media_def sarvam_transcribe_def gemini_fact_check_def
        send_whatsapp_reply_def Let_def
        cong: sum.case_cong option.case_cong write_outcome.case_cong text_attr.case_cong)

lemma try_body_os_remove: "try_body (e\<lparr>os_remove := rm\<rparr>) = try_body e"
  by (simp add: fun_eq_iff try_body_def resolve_input_def os_remove_irrelevant Let_def
        cong: sum.case_cong option.case_cong prod.case_cong if_cong)

lemma process_incoming_os_remove:
  "fst (process_incoming (e\<lparr>os_remove := rm\<rparr>) from_number body nm url w)
     = fst (process_incoming e from_number body nm url w)
   \<and> delivered (snd (process_incoming (e\<lparr>os_remove := rm\<rparr>) from_number body nm url w))
     = delivered (snd (process_incoming e from_number body nm url w))"
  by (simp add: process_incoming_def try_body_os_remove os_remove_irrelevant cleanup_effect
           split: prod.splits sum.splits)

lemma reply_text_contains:
  "sublist t (reply_text t r)" "sublist r (reply_text t r)"
proof -
  have "reply_text t r = (str ''Transcript:'' @ [10]) @ t @ ([10, 10] @ str ''Fact-check:'' @ [10] @ r)"
    by (simp add: reply_text_def)
  then show "sublist t (reply_text t r)"
    unfolding sublist_def by blast
  have "reply_text t r = (str ''Transcript:'' @ [10] @ t @ [10, 10] @ str ''Fact-check:'' @ [10]) @ r @ []"
    by (simp add: reply_text_def)
  then show "sublist r (reply_text t r)"
    unfolding sublist_def by blast
qed

lemma hi_resolved:
  "resolve_input e (Some (str ''hi'')) (Some (str ''0'')) None w = (Inr (str ''hi''), None, w)"
  by (simp add: resolve_input_text_message strip_hi)

lemma empty_resolved:
  "resolve_input e (Some []) (Some (str ''0'')) None w = (Inr [], None, w)"
  by (simp add: resolve_input_text_message strip_def)

lemma media_downloaded:
  "download_media (env_ok\<lparr>os_remove := rm\<rparr>) media_link world0
     = (Inr (str ''/tmp/0f3a.opus''),
        \<lparr>files = {str ''/tmp/0f3a.opus''}, delivered = [], trace = [Download media_link]\<rparr>)"
  by (simp add: download_media_def env_ok_simps ogg_response_def raise_for_status_def
        media_ext_def path_join_def str_def Let_def emit_def world0_def)

lemma media_resolved:
  "resolve_input (env_ok\<lparr>os_remove := rm\<rparr>) body (Some (str ''1'')) (Some media_link) world0
     = (Inr (str ''vanakkam''), Some (str ''/tmp/0f3a.opus''),
        \<lparr>files = {str ''/tmp/0f3a.opus''}, delivered = [],
         trace = [Download media_link, Transcribe (str ''/tmp/0f3a.opus'')]\<rparr>)"
  by (simp add: resolve_input_def str_nonempty media_link_nonempty media_downloaded
        sarvam_transcribe_def vanakkam emit_def Let_def env_ok_simps py_int_one)

section \<open>Properties of the components\<close>

text \<open>
  Claim C6, as amended. When \<open>download_media\<close> returns a path, the path is the temporary
  directory joined with the random name and the extension that the specification's table
  gives for the response's declared content type (\<^verbatim>\<open>.opus\<close> for opus or ogg, \<^verbatim>\<open>.wav\<close> for
  wav, \<^verbatim>\<open>.mp3\<close> for mpeg or mp3, \<^verbatim>\<open>.bin\<close> otherwise, the first match winning), and the
  file exists. When the status is a client or server error (400 to 599), \<open>download_media\<close>
  raises \<^verbatim>\<open>HTTPError\<close> and creates no file. The claim said this of every status that is not
  a success; \<^verbatim>\<open>raise_for_status\<close> lets the other classes through.
\<close>

theorem download_media_extension_and_status:
  assumes "requests_get e url = Inr resp"
  shows "(fst (download_media e url w) = Inr path \<longrightarrow>
            path = path_join (gettempdir e) (uuid4_hex e @ spec_ext (declared_type resp))
            \<and> path \<in> files (snd (download_media e url w)))
       \<and> (400 \<le> status_code resp \<and> status_code resp < 600 \<longrightarrow>
            fst (download_media e url w) = Inl (HTTPError (status_code resp))
            \<and> files (snd (download_media e url w)) = files w)"
  using assms
  by (auto simp: download_media_def raise_for_status_def media_ext_spec declared_type_def
                 Let_def emit_def
           split: write_outcome.splits option.splits)

theorem download_media_extension_and_status_witness:
  "requests_get env_ok media_link = Inr ogg_response
   \<and> str ''/tmp/0f3a.opus'' = path_join (gettempdir env_ok) (uuid4_hex env_ok @ spec_ext (declared_type ogg_response))
   \<and> requests_get (env_ok\<lparr>requests_get := (\<lambda>url. Inr (ogg_response\<lparr>status_code := 404\<rparr>))\<rparr>) media_link
       = Inr (ogg_response\<lparr>status_code := 404\<rparr>)
   \<and> fst (download_media (env_ok\<lparr>requests_get := (\<lambda>url. Inr (ogg_response\<lparr>status_code := 404\<rparr>))\<rparr>)
            media_link world0) = Inl (HTTPError 404)"
proof -
  have ok: "requests_get env_ok media_link = Inr ogg_response"
    by (simp add: env_ok_def)
  have bad: "requests_get (env_ok\<lparr>requests_get := (\<lambda>url. Inr (ogg_response\<lparr>status_code := 404\<rparr>))\<rparr>)
               media_link = Inr (ogg_response\<lparr>status_code := 404\<rparr>)"
    by simp
  show ?thesis
    using download_media_extension_and_status [OF ok, of world0 "str ''/tmp/0f3a.opus''"]
          download_media_extension_and_status [OF bad, of world0 "[]"] ok ogg_path
    by simp
qed

text \<open>
  A response with status 304, which is not a success status, is not refused: the download
  returns a path and the file is created.
\<close>

theorem download_media_redirect_status_counterexample:
  "status_code (ogg_response\<lparr>status_code := 304\<rparr>) = 304
   \<and> fst (download_media (env_ok\<lparr>requests_get := (\<lambda>url. Inr (ogg_response\<lparr>status_code := 304\<rparr>))\<rparr>)
            media_link world0) = Inr (str ''/tmp/0f3a.opus'')
   \<and> str ''/tmp/0f3a.opus'' \<in>
       files (snd (download_media (env_ok\<lparr>requests_get := (\<lambda>url. Inr (ogg_response\<lparr>status_code := 304\<rparr>))\<rparr>)
            media_link world0))"
  by (simp add: download_media_def env_ok_def ogg_response_def raise_for_status_def
        media_ext_def path_join_def str_def Let_def emit_def world0_def)

text \<open>
  Claim C5. For every response of the transcription service, \<open>sarvam_transcribe\<close> returns
  the trimmed value of the first strategy that yields a non-empty string, the strategies
  being in this order the \<^verbatim>\<open>transcript\<close> attribute, the \<^verbatim>\<open>text\<close> attribute, the
  \<^verbatim>\<open>transcript\<close> entry of the dump and the \<^verbatim>\<open>text\<close> entry of the dump, and the empty
  string when none does. In particular a response that carries only a \<^verbatim>\<open>text\<close> field
  gives that field's trimmed value.
\<close>

theorem sarvam_transcribe_extraction:
  assumes "transcribe e file_path = Inr resp"
  shows "fst (sarvam_transcribe e file_path w) = Inr (spec_transcript resp)
       \<and> (only_text_field resp s \<longrightarrow> fst (sarvam_transcribe e file_path w) = Inr (strip s))"
  using assms
  by (auto simp: sarvam_transcribe_def extract_transcript_spec spec_transcript_def
                 only_text_field_def Let_def strip_def)

theorem sarvam_transcribe_extraction_witness:
  "transcribe env_ok (str ''/tmp/0f3a.opus'') = Inr text_only_response
   \<and> only_text_field text_only_response (str '' vanakkam '')
   \<and> fst (sarvam_transcribe env_ok (str ''/tmp/0f3a.opus'') world0) = Inr (str ''vanakkam'')"
proof -
  have t: "transcribe env_ok (str ''/tmp/0f3a.opus'') = Inr text_only_response"
    by (simp add: env_ok_def)
  have o: "only_text_field text_only_response (str '' vanakkam '')"
    by (simp add: only_text_field_def text_only_response_def dump_field_def)
  have s: "strip (str '' vanakkam '') = str ''vanakkam''"
    by (simp add: strip_def str_def py_isspace_def)
  from sarvam_transcribe_extraction [OF t, of world0 "str '' vanakkam ''"] o
  have "fst (sarvam_transcribe env_ok (str ''/tmp/0f3a.opus'') world0) = Inr (strip (str '' vanakkam ''))"
    by blast
  with t o s show ?thesis
    by simp
qed

text \<open>
  Claim C10. When the generative model returns a response object without a \<^verbatim>\<open>text\<close>
  attribute, \<open>gemini_fact_check\<close> does not raise: it returns \<^verbatim>\<open>str(resp)\<close>.
\<close>

theorem gemini_fact_check_missing_text:
  "generate_content e (prompt transcript) = Inr resp \<Longrightarrow> text_of resp = NoAttr \<Longrightarrow>
   fst (gemini_fact_check e transcript w) = Inr (str_of resp)"
  by (simp add: gemini_fact_check_def)

theorem gemini_fact_check_missing_text_witness:
  "fst (gemini_fact_check (env_ok\<lparr>generate_content := (\<lambda>p. Inr (verdict_response\<lparr>text_of := NoAttr\<rparr>))\<rparr>)
         (str ''hi'') world0) = Inr (str ''response'')"
  using gemini_fact_check_missing_text
          [of "env_ok\<lparr>generate_content := (\<lambda>p. Inr (verdict_response\<lparr>text_of := NoAttr\<rparr>))\<rparr>"
              "str ''hi''" "verdict_response\<lparr>text_of := NoAttr\<rparr>" world0]
  by (simp add: verdict_response_def)

section \<open>Properties of the orchestrator\<close>

text \<open>
  Claim C1, as amended. When a step of the \<^verbatim>\<open>try\<close> block raises (the conversion of the
  media count, the download, the transcription, the fact-check or a reply send) and the
  send of the apology does not itself raise, \<open>process_incoming\<close> returns normally and
  exactly one reply has been delivered, the fixed apology to the original sender. The
  handler's own send is not guarded, so the claim fails when that send raises.
\<close>

theorem process_incoming_apology:
  assumes "fst (try_body e from_number body nm url w) = Inl x"
      and "messages_create e from_number apology_reply = None"
  shows "fst (process_incoming e from_number body nm url w) = Inr ()
       \<and> delivered (snd (process_incoming e from_number body nm url w))
           = delivered w @ [(from_number, apology_reply)]"
proof -
  obtain lp w1 where tb: "try_body e from_number body nm url w = (Inl x, lp, w1)"
    using assms(1) by (cases "try_body e from_number body nm url w") auto
  show ?thesis
    using assms(2) try_body_raises_delivered [OF tb]
    by (simp add: process_incoming_def tb send_whatsapp_reply_def cleanup_effect emit_simps
          Let_def)
qed

theorem process_incoming_apology_witness:
  "fst (try_body env_model_fails (Some sender) (Some (str ''hi'')) (Some (str ''0'')) None world0)
     = Inl (OtherError ''ServiceUnavailable'')
   \<and> fst (process_incoming env_model_fails (Some sender) (Some (str ''hi'')) (Some (str ''0''))
            None world0) = Inr ()
   \<and> delivered (snd (process_incoming env_model_fails (Some sender) (Some (str ''hi''))
                        (Some (str ''0'')) None world0)) = [(Some sender, apology_reply)]"
proof -
  have t: "fst (try_body env_model_fails (Some sender) (Some (str ''hi'')) (Some (str ''0''))
                  None world0) = Inl (OtherError ''ServiceUnavailable'')"
    by (simp add: try_body_def hi_resolved str_nonempty gemini_fact_check_def
          env_model_fails_def)
  have m: "messages_create env_model_fails (Some sender) apology_reply = None"
    by (simp add: env_model_fails_def env_ok_def)
  show ?thesis
    using process_incoming_apology [OF t m] t by (simp add: world0_def)
qed

text \<open>
  With a messaging provider that refuses every send, the reply send raises, the apology
  send raises too, its exception leaves \<open>process_incoming\<close>, no reply is delivered, and
  the sender was called twice.
\<close>

theorem apology_send_fails_counterexample:
  "fst (try_body env_send_fails (Some sender) (Some (str ''hi'')) (Some (str ''0'')) None world0)
     = Inl twilio_error
   \<and> fst (process_incoming env_send_fails (Some sender) (Some (str ''hi'')) (Some (str ''0''))
            None world0) = Inl twilio_error
   \<and> delivered (snd (process_incoming env_send_fails (Some sender) (Some (str ''hi''))
                        (Some (str ''0'')) None world0)) = []
   \<and> length (filter is_Send
        (trace (snd (process_incoming env_send_fails (Some sender) (Some (str ''hi''))
                       (Some (str ''0'')) None world0)))) = 2"
  by (simp add: process_incoming_def try_body_def hi_resolved str_nonempty
        gemini_fact_check_def send_whatsapp_reply_def cleanup_def emit_def
        env_send_fails_def env_ok_simps verdict_response_def world0_def)

text \<open>
  Claim C2, as amended. When the resolved transcript is empty, the Fact-Check Client is
  never invoked; and when the send of the insufficient-content reply does not raise,
  nothing follows the input resolution but that one send and the cleanup:
  \<open>process_incoming\<close> returns normally and exactly that reply is delivered. The send is
  inside the \<^verbatim>\<open>try\<close> block, so when it raises the handler goes on to send the apology.
\<close>

theorem empty_transcript_guard:
  assumes "resolve_input e body nm url w = (Inr [], lp, w1)"
  shows "filter is_FactCheck (trace (snd (process_incoming e from_number body nm url w)))
           = filter is_FactCheck (trace w)
       \<and> (messages_create e from_number insufficient_reply = None \<longrightarrow>
            process_incoming e from_number body nm url w
              = (Inr (), cleanup e lp (snd (send_whatsapp_reply e from_number insufficient_reply w1)))
            \<and> delivered (snd (process_incoming e from_number body nm url w))
                = delivered w @ [(from_number, insufficient_reply)])"
  using resolve_input_effect [OF assms]
  by (simp add: process_incoming_empty_transcript [OF assms] send_whatsapp_reply_def
        cleanup_effect emit_simps Let_def split: option.splits)

theorem empty_transcript_guard_witness:
  "resolve_input env_ok (Some []) (Some (str ''0'')) None world0 = (Inr [], None, world0)
   \<and> messages_create env_ok (Some sender) insufficient_reply = None
   \<and> filter is_FactCheck (trace (snd (process_incoming env_ok (Some sender) (Some [])
                                        (Some (str ''0'')) None world0))) = []
   \<and> delivered (snd (process_incoming env_ok (Some sender) (Some []) (Some (str ''0''))
                        None world0)) = [(Some sender, insufficient_reply)]"
proof -
  have m: "messages_create env_ok (Some sender) insufficient_reply = None"
    by (simp add: env_ok_def)
  have w: "trace world0 = []" "delivered world0 = []"
    by (simp_all add: world0_def)
  from empty_transcript_guard [OF empty_resolved, of env_ok "Some sender" world0] m
  have "filter is_FactCheck (trace (snd (process_incoming env_ok (Some sender) (Some [])
                                          (Some (str ''0'')) None world0)))
          = filter is_FactCheck (trace world0)"
    and "delivered (snd (process_incoming env_ok (Some sender) (Some []) (Some (str ''0''))
                          None world0)) = delivered world0 @ [(Some sender, insufficient_reply)]"
    by blast+
  then show ?thesis
    using m w by (simp add: empty_resolved)
qed

text \<open>
  With a provider that refuses the insufficient-content reply and accepts the apology, an
  empty message ends with the apology delivered, after two sends.
\<close>

theorem insufficient_send_fails_counterexample:
  "resolve_input env_only_apology_sent (Some []) (Some (str ''0'')) None world0
     = (Inr [], None, world0)
   \<and> delivered (snd (process_incoming env_only_apology_sent (Some sender) (Some [])
                        (Some (str ''0'')) None world0)) = [(Some sender, apology_reply)]
   \<and> trace (snd (process_incoming env_only_apology_sent (Some sender) (Some [])
                    (Some (str ''0'')) None world0))
       = [Send (Some sender) insufficient_reply, Logged twilio_error,
          Send (Some sender) apology_reply]"
  by (simp add: process_incoming_empty_transcript [OF empty_resolved] empty_resolved
        send_whatsapp_reply_def cleanup_def emit_def insufficient_not_apology
        env_only_apology_sent_def world0_def)

text \<open>
  Claim C3. For a request with \<^verbatim>\<open>NumMedia\<close> equal to \<^verbatim>\<open>"0"\<close> and a non-empty body, the
  transcript is the body trimmed, no file is involved and the world is untouched by the
  input resolution; the run never invokes \<open>download_media\<close>; and the first thing the run
  does is use that transcript: the insufficient-content reply when it is empty, the
  fact-check of exactly that string otherwise.
\<close>

theorem text_message_uses_trimmed_body:
  assumes "body \<noteq> []"
  shows "resolve_input e (Some body) (Some (str ''0'')) url w = (Inr (strip body), None, w)
       \<and> filter is_Download
           (trace (snd (process_incoming e from_number (Some body) (Some (str ''0'')) url w)))
           = filter is_Download (trace w)
       \<and> take 1 (drop (length (trace w))
           (trace (snd (process_incoming e from_number (Some body) (Some (str ''0'')) url w))))
           = [if strip body = [] then Send from_number insufficient_reply
              else FactCheck (strip body)]"
proof (cases "strip body = []")
  case True
  then have r: "resolve_input e (Some body) (Some (str ''0'')) url w = (Inr [], None, w)"
    by (simp add: resolve_input_text_message)
  show ?thesis
    using True
    by (simp add: resolve_input_text_message process_incoming_empty_transcript [OF r]
          send_whatsapp_reply_def cleanup_def emit_simps Let_def split: option.splits)
next
  case False
  note r = resolve_input_text_message [of e body url w]
  show ?thesis
    using False
    by (simp add: r process_incoming_transcript [OF r False] gemini_fact_check_def
          send_whatsapp_reply_def cleanup_def emit_simps Let_def
          split: option.splits sum.splits text_attr.splits)
qed

theorem text_message_uses_trimmed_body_witness:
  "str '' hi '' \<noteq> []
   \<and> resolve_input env_ok (Some (str '' hi '')) (Some (str ''0'')) None world0
       = (Inr (str ''hi''), None, world0)
   \<and> filter is_Download
       (trace (snd (process_incoming env_ok (Some sender) (Some (str '' hi ''))
                      (Some (str ''0'')) None world0))) = []"
proof -
  have b: "str '' hi '' \<noteq> []"
    by (simp add: str_def)
  from text_message_uses_trimmed_body [OF b, of env_ok None world0 "Some sender"] b
  show ?thesis
    by (simp add: strip_padded_hi world0_simps)
qed

text \<open>
  Claim C4. The claim is that, when a media attachment is declared and a media URL is
  present, the file the Media Fetcher created is removed by the end of processing whether
  or not an error occurred anywhere in the pipeline. The code does not do this when the
  error is in the fetcher itself: with a full disk \<^verbatim>\<open>open\<close> creates the file and the write
  raises, \<open>download_media\<close> returns no path, \<^verbatim>\<open>local_path\<close> is still \<^verbatim>\<open>None\<close> in the
  \<^verbatim>\<open>finally\<close> clause, and no deletion is attempted. The run below invokes the fetcher
  once, sends the apology, returns normally, and leaves the file on disk.
\<close>

theorem failed_write_leaves_file:
  "str ''/tmp/0f3a.opus'' \<notin> files world0
   \<and> download_media env_disk_full media_link world0
       = (Inl (OtherError ''OSError''),
          \<lparr>files = {str ''/tmp/0f3a.opus''}, delivered = [], trace = [Download media_link]\<rparr>)
   \<and> process_incoming env_disk_full (Some sender) None (Some (str ''1'')) (Some media_link)
         world0
       = (Inr (),
          \<lparr>files = {str ''/tmp/0f3a.opus''},
           delivered = [(Some sender, apology_reply)],
           trace = [Download media_link, Logged (OtherError ''OSError''),
                    Send (Some sender) apology_reply]\<rparr>)"
proof -
  have d: "download_media env_disk_full media_link world0
             = (Inl (OtherError ''OSError''),
                \<lparr>files = {str ''/tmp/0f3a.opus''}, delivered = [],
                 trace = [Download media_link]\<rparr>)"
    by (simp add: download_media_def env_disk_full_def env_ok_simps ogg_response_def
          raise_for_status_def media_ext_def path_join_def str_def Let_def emit_def world0_def)
  have f: "int_max_str_digits env_disk_full = 4300"
    "messages_create env_disk_full = (\<lambda>to body. None)"
    by (simp_all add: env_disk_full_def env_ok_simps)
  have r: "resolve_input env_disk_full None (Some (str ''1'')) (Some media_link) world0
             = (Inl (OtherError ''OSError''), None,
                \<lparr>files = {str ''/tmp/0f3a.opus''}, delivered = [],
                 trace = [Download media_link]\<rparr>)"
    by (simp add: resolve_input_def str_nonempty media_link_nonempty d f py_int_one Let_def)
  show ?thesis
    by (simp add: d process_incoming_def try_body_def r f send_whatsapp_reply_def cleanup_def
          emit_def Let_def world0_simps)
qed

text \<open>
  What the cleanup does achieve. When the media count is a positive integer and a media
  URL is present, \<open>download_media\<close> is invoked exactly once; if it returns a path and the
  deletion of that path does not raise, the file is gone when \<open>process_incoming\<close> ends,
  whatever happened in the steps after the download; and an exception of the deletion is
  ignored: neither the outcome of \<open>process_incoming\<close> nor the replies delivered depend on
  what \<^verbatim>\<open>os.remove\<close> does.
\<close>

lemma cleanup_of_returned_path:
  assumes "nm \<noteq> []" and "py_int (int_max_str_digits e) nm = Some n" and "0 < n"
      and "url \<noteq> []"
  shows "filter is_Download
           (trace (snd (process_incoming e from_number body (Some nm) (Some url) w)))
           = filter is_Download (trace w) @ [Download url]
       \<and> (fst (download_media e url w) = Inr p \<and> os_remove e p = None \<longrightarrow>
            p \<notin> files (snd (process_incoming e from_number body (Some nm) (Some url) w)))
       \<and> fst (process_incoming (e\<lparr>os_remove := rm\<rparr>) from_number body (Some nm) (Some url) w)
           = fst (process_incoming e from_number body (Some nm) (Some url) w)
       \<and> delivered (snd (process_incoming (e\<lparr>os_remove := rm\<rparr>) from_number body
                            (Some nm) (Some url) w))
           = delivered (snd (process_incoming e from_number body (Some nm) (Some url) w))"
proof -
  obtain r0 lp0 w1 where ri: "resolve_input e body (Some nm) (Some url) w = (r0, lp0, w1)"
    by (cases "resolve_input e body (Some nm) (Some url) w")
  obtain r lp w2 where tb: "try_body e from_number body (Some nm) (Some url) w = (r, lp, w2)"
    by (cases "try_body e from_number body (Some nm) (Some url) w")
  obtain out w3 where h:
    "(case r of Inr u \<Rightarrow> (Inr (), w2)
      | Inl x \<Rightarrow> send_whatsapp_reply e from_number apology_reply (emit (Logged x) w2))
     = (out, w3)"
    by (cases "case r of Inr u \<Rightarrow> (Inr (), w2)
      | Inl x \<Rightarrow> send_whatsapp_reply e from_number apology_reply (emit (Logged x) w2)")
  have pi: "process_incoming e from_number body (Some nm) (Some url) w = (out, cleanup e lp w3)"
    by (simp add: process_incoming_def tb h)
  note rm = resolve_input_media [OF assms ri]
  note ta = try_body_after_resolve [OF ri tb]
  note he = handler_effect [OF h]
  have 1: "filter is_Download
           (trace (snd (process_incoming e from_number body (Some nm) (Some url) w)))
           = filter is_Download (trace w) @ [Download url]"
    by (simp add: pi cleanup_effect he ta rm(1))
  have 2: "fst (download_media e url w) = Inr p \<and> os_remove e p = None \<longrightarrow>
            p \<notin> files (snd (process_incoming e from_number body (Some nm) (Some url) w))"
    using rm(2) ta(1) by (auto simp: pi cleanup_removes)
  show ?thesis
    using 1 2 process_incoming_os_remove by blast
qed

lemma cleanup_of_returned_path_example:
  "py_int (int_max_str_digits env_ok) (str ''1'') = Some 1
   \<and> fst (download_media env_ok media_link world0) = Inr (str ''/tmp/0f3a.opus'')
   \<and> filter is_Download
       (trace (snd (process_incoming env_ok (Some sender) None (Some (str ''1''))
                      (Some media_link) world0))) = [Download media_link]
   \<and> str ''/tmp/0f3a.opus'' \<notin>
       files (snd (process_incoming env_ok (Some sender) None (Some (str ''1''))
                     (Some media_link) world0))"
proof -
  have n: "py_int (int_max_str_digits env_ok) (str ''1'') = Some 1"
    by (simp add: env_ok_simps py_int_one)
  have r: "os_remove env_ok (str ''/tmp/0f3a.opus'') = None"
    by (simp add: env_ok_simps)
  from cleanup_of_returned_path [OF str_nonempty(2) n _ media_link_nonempty,
         of "Some sender" None world0 "str ''/tmp/0f3a.opus''" "os_remove env_ok"]
       ogg_path r n
  show ?thesis
    by (simp add: world0_simps)
qed

text \<open>
  The deletion is best effort: with a file system that refuses it, the run succeeds and
  the downloaded file is still there at the end.
\<close>

lemma refused_deletion_leaves_file:
  "fst (download_media env_remove_fails media_link world0) = Inr (str ''/tmp/0f3a.opus'')
   \<and> fst (process_incoming env_remove_fails (Some sender) None (Some (str ''1''))
            (Some media_link) world0) = Inr ()
   \<and> str ''/tmp/0f3a.opus'' \<in>
        files (snd (process_incoming env_remove_fails (Some sender) None (Some (str ''1''))
                      (Some media_link) world0))"
proof -
  have v: "str ''vanakkam'' \<noteq> []"
    by (simp add: str_def)
  have p: "str ''/tmp/0f3a.opus'' \<noteq> []"
    by (simp add: str_def)
  show ?thesis
    using p
    by (simp add: env_remove_fails_def media_downloaded
          process_incoming_transcript [OF media_resolved v]
          gemini_fact_check_def send_whatsapp_reply_def cleanup_def emit_def Let_def
          env_ok_simps verdict_response_def)
qed

text \<open>
  Claim C7. When the resolved transcript \<open>t\<close> is not empty and the \<^verbatim>\<open>try\<close> block ends
  without an exception, the Fact-Check Client was called once, on \<open>t\<close>, with the prompt
  made of the template's head, \<open>t\<close> itself and the template's tail; \<open>process_incoming\<close>
  returns normally; and exactly one reply is delivered to the sender, built from \<open>t\<close> and
  the fact-check result \<open>r\<close> as returned, both of which it contains.
\<close>

theorem fact_check_and_reply:
  assumes "resolve_input e body nm url w = (Inr t, lp, w1)" and "t \<noteq> []"
      and "fst (try_body e from_number body nm url w) = Inr ()"
  shows "\<exists>r. fst (gemini_fact_check e t w1) = Inr r
           \<and> filter is_FactCheck (trace (snd (process_incoming e from_number body nm url w)))
               = filter is_FactCheck (trace w) @ [FactCheck t, Generate (prompt_head @ t @ prompt_tail)]
           \<and> fst (process_incoming e from_number body nm url w) = Inr ()
           \<and> delivered (snd (process_incoming e from_number body nm url w))
               = delivered w @ [(from_number, reply_text t r)]
           \<and> sublist t (reply_text t r) \<and> sublist r (reply_text t r)"
proof -
  obtain g w2 where g: "gemini_fact_check e t w1 = (g, w2)"
    by (cases "gemini_fact_check e t w1")
  from assms g obtain r where r: "g = Inr r"
    by (cases g) (auto simp: try_body_def)
  obtain s w3 where s: "send_whatsapp_reply e from_number (reply_text t r) w2 = (s, w3)"
    by (cases "send_whatsapp_reply e from_number (reply_text t r) w2")
  from assms g r s have ok: "s = Inr ()"
    by (auto simp: try_body_def)
  note ge = gemini_fact_check_effect [OF g]
  note se = send_whatsapp_reply_effect [OF s]
  note re = resolve_input_effect [OF assms(1)]
  have pi: "process_incoming e from_number body nm url w = (Inr (), cleanup e lp w3)"
    by (simp add: process_incoming_transcript [OF assms(1,2)] g r s ok)
  have "fst (gemini_fact_check e t w1) = Inr r"
    by (simp add: g r)
  moreover have "filter is_FactCheck (trace (snd (process_incoming e from_number body nm url w)))
               = filter is_FactCheck (trace w) @ [FactCheck t, Generate (prompt_head @ t @ prompt_tail)]"
    using ge se re by (simp add: pi cleanup_effect prompt_def)
  moreover have "delivered (snd (process_incoming e from_number body nm url w))
               = delivered w @ [(from_number, reply_text t r)]"
    using ge se re ok by (simp add: pi cleanup_effect)
  ultimately show ?thesis
    using pi reply_text_contains by auto
qed

theorem fact_check_and_reply_witness:
  "fst (try_body env_ok (Some sender) (Some (str ''hi'')) (Some (str ''0'')) None world0) = Inr ()
   \<and> filter is_FactCheck
       (trace (snd (process_incoming env_ok (Some sender) (Some (str ''hi'')) (Some (str ''0''))
                      None world0)))
       = [FactCheck (str ''hi''), Generate (prompt_head @ str ''hi'' @ prompt_tail)]
   \<and> delivered (snd (process_incoming env_ok (Some sender) (Some (str ''hi'')) (Some (str ''0''))
                        None world0))
       = [(Some sender, reply_text (str ''hi'') (str ''Verdict: TRUE''))]"
proof -
  have g: "fst (gemini_fact_check env_ok (str ''hi'') world0) = Inr (str ''Verdict: TRUE'')"
    by (simp add: gemini_fact_check_def env_ok_simps verdict_response_def)
  have t: "fst (try_body env_ok (Some sender) (Some (str ''hi'')) (Some (str ''0'')) None world0)
             = Inr ()"
    by (simp add: try_body_def hi_resolved str_nonempty gemini_fact_check_def
          send_whatsapp_reply_def env_ok_simps verdict_response_def Let_def)
  from fact_check_and_reply [OF hi_resolved str_nonempty(1) t] g t
  show ?thesis
    by (auto simp: world0_simps)
qed

text \<open>
  Claim C9. When \<^verbatim>\<open>num_media\<close> is a non-empty string that is not a valid integer literal,
  the run consists of the handler alone: the \<^verbatim>\<open>ValueError\<close> is logged and the sender is
  called once, with the apology. Nothing is downloaded, transcribed or fact-checked and the
  body is not used, whatever it is; when the provider accepts the apology,
  \<open>process_incoming\<close> returns normally and the apology is the one reply delivered.
\<close>

theorem invalid_num_media_apology:
  assumes "nm \<noteq> []" and "\<not> valid_int_literal nm"
  shows "trace (snd (process_incoming e from_number body (Some nm) url w))
           = trace w @ [Logged ValueError, Send from_number apology_reply]
       \<and> files (snd (process_incoming e from_number body (Some nm) url w)) = files w
       \<and> (messages_create e from_number apology_reply = None \<longrightarrow>
            fst (process_incoming e from_number body (Some nm) url w) = Inr ()
            \<and> delivered (snd (process_incoming e from_number body (Some nm) url w))
                = delivered w @ [(from_number, apology_reply)])"
proof -
  have r: "resolve_input e body (Some nm) url w = (Inl ValueError, None, w)"
    using assms by (simp add: resolve_input_def py_int_invalid Let_def)
  show ?thesis
    by (simp add: process_incoming_def try_body_def r send_whatsapp_reply_def cleanup_def
          emit_simps Let_def split: option.splits)
qed

theorem invalid_num_media_apology_witness:
  "\<not> valid_int_literal (str ''abc'')
   \<and> trace (snd (process_incoming env_ok (Some sender) (Some (str ''hi'')) (Some (str ''abc''))
                    None world0))
       = [Logged ValueError, Send (Some sender) apology_reply]
   \<and> delivered (snd (process_incoming env_ok (Some sender) (Some (str ''hi''))
                        (Some (str ''abc'')) None world0))
       = [(Some sender, apology_reply)]"
proof -
  have m: "messages_create env_ok (Some sender) apology_reply = None"
    by (simp add: env_ok_simps)
  from invalid_num_media_apology [OF str_nonempty(3) abc_invalid,
         of env_ok "Some sender" "Some (str ''hi'')" None world0] m abc_invalid
  show ?thesis
    by (simp add: world0_simps)
qed

end
